theory Spec2Isabelle
  imports Complex_Main
begin

section \<open>Data model of the semantic analyzer (semantic_analyzer.py)\<close>

text \<open>
  \<^verbatim>\<open>class SymbolType(Enum)\<close>: the six members of the source enumeration, and
  \<^verbatim>\<open>SymbolType(type_spec)\<close>, the lookup of a member by its string value, which raises
  ValueError for any other string. (\<^verbatim>\<open>INT\<close> and \<^verbatim>\<open>CHAR\<close> are
  reserved syntax of HOL, so these two members are written \<open>INT_T\<close> and \<open>CHAR_T\<close>.)
\<close>

datatype SymbolType = INT_T | FLOAT | CHAR_T | BOOL | ARRAY | FUNCTION

definition SymbolType_of_value :: "string \<Rightarrow> SymbolType option" where
  "SymbolType_of_value v =
     (if v = ''int'' then Some INT_T
      else if v = ''float'' then Some FLOAT
      else if v = ''char'' then Some CHAR_T
      else if v = ''bool'' then Some BOOL
      else if v = ''array'' then Some ARRAY
      else if v = ''function'' then Some FUNCTION
      else None)"

text \<open>
  \<^verbatim>\<open>SymbolInfo = Union[SymbolType, ArrayType, FunctionType]\<close>; the two dataclasses are
  compared by value.
\<close>

datatype SymbolInfo =
    Sym SymbolType
  | ArrayType SymbolType int
  | FunctionType SymbolType "SymbolType list"

text \<open>
  The values that travel through the analyzer as value references and instruction
  operands: \<^verbatim>\<open>None\<close>, the literal payloads (a float literal is carried opaquely, no
  arithmetic is done on it), names of variables, temporaries and labels, and the list of
  argument references of a \<^verbatim>\<open>call\<close>.
\<close>

datatype pyvalue =
    VNone
  | VBool bool
  | VInt int
  | VFloat rat
  | VStr string
  | VList "pyvalue list"

text \<open>
  Every \<^verbatim>\<open>raise ValueError(...)\<close> site of the source, by its message; the three
  \<^verbatim>\<open>except ValueError as e: raise ValueError(f"... error: {str(e)}")\<close> wrappers prefix
  the message they catch. Reading an absent key of a node raises KeyError, and building a
  set from an ArrayType or FunctionType (dataclasses with \<^verbatim>\<open>eq\<close> and no hash) raises
  Python's own TypeError.
\<close>

datatype message =
    AlreadyDeclared string
  | NotDeclared string
  | ArraySizeNotPositive
  | NotAValidSymbolType string
  | DeclarationError message
  | CannotAssignToConstant string
  | CannotAssignToArray string
  | AssignmentTypeMismatch string
  | AssignmentError message
  | InvalidOperands string
  | RelationalTypeMismatch string
  | InvalidLogicalOperands string
  | UnknownOperator string
  | InvalidNotOperand
  | InvalidNegOperand
  | UnknownUnaryOperator string
  | NotAnArray string
  | IndexNotInteger
  | ArrayAccessError message
  | FunctionNotDeclared string
  | ExpectsArguments string nat
  | ArgumentTypeMismatch nat string
  | ArrayElementTypeMismatch string
  | IfConditionNotBoolean
  | WhileConditionNotBoolean
  | InvalidLiteralValue pyvalue

datatype error =
    ValueError message
  | KeyError string
  | UnhashableType

section \<open>SymbolTable\<close>

record symbol_entry =
  sym_type :: SymbolInfo
  is_const :: bool

datatype SymbolTable =
  SymbolTable (table: "string \<rightharpoonup> symbol_entry") (parent: "SymbolTable option")

definition add_symbol ::
  "string \<Rightarrow> SymbolInfo \<Rightarrow> bool \<Rightarrow> SymbolTable \<Rightarrow> error + SymbolTable" where
  "add_symbol name symbol_type c sc =
     (if name \<in> dom (table sc) then Inl (ValueError (AlreadyDeclared name))
      else Inr (SymbolTable ((table sc)(name \<mapsto> \<lparr>sym_type = symbol_type, is_const = c\<rparr>))
                            (parent sc)))"

fun check_symbol :: "string \<Rightarrow> SymbolTable \<Rightarrow> error + symbol_entry" where
  "check_symbol name (SymbolTable tbl None) =
     (case tbl name of
        Some e \<Rightarrow> Inr e
      | None \<Rightarrow> Inl (ValueError (NotDeclared name)))"
| "check_symbol name (SymbolTable tbl (Some p)) =
     (case tbl name of
        Some e \<Rightarrow> Inr e
      | None \<Rightarrow> check_symbol name p)"

text \<open>The scopes of a chain, innermost first, as the parent links give them.\<close>

fun scope_chain :: "SymbolTable \<Rightarrow> (string \<rightharpoonup> symbol_entry) list" where
  "scope_chain (SymbolTable tbl None) = [tbl]"
| "scope_chain (SymbolTable tbl (Some p)) = tbl # scope_chain p"

section \<open>IntermediateCodeGenerator\<close>

text \<open>
  \<^verbatim>\<open>str(n)\<close> of a counter: the decimal digits of a natural number, most significant
  first, no leading zero.
\<close>

definition digit_char :: "nat \<Rightarrow> char" where
  "digit_char d = char_of (48 + d)"

fun str_nat :: "nat \<Rightarrow> string" where
  "str_nat n =
     (if n < 10 then [digit_char n]
      else str_nat (n div 10) @ [digit_char (n mod 10)])"

declare str_nat.simps [simp del]

type_synonym instruction = "string \<times> pyvalue \<times> pyvalue \<times> pyvalue"

record IntermediateCodeGenerator =
  code :: "instruction list"
  temp_count :: nat
  label_count :: nat

definition init_code_gen :: IntermediateCodeGenerator where
  "init_code_gen = \<lparr>code = [], temp_count = 0, label_count = 0\<rparr>"

definition new_temp :: "IntermediateCodeGenerator \<Rightarrow> string \<times> IntermediateCodeGenerator" where
  "new_temp g = (''t'' @ str_nat (temp_count g), g\<lparr>temp_count := temp_count g + 1\<rparr>)"

definition new_label :: "IntermediateCodeGenerator \<Rightarrow> string \<times> IntermediateCodeGenerator" where
  "new_label g = (''L'' @ str_nat (label_count g), g\<lparr>label_count := label_count g + 1\<rparr>)"

definition emit ::
  "string \<Rightarrow> pyvalue \<Rightarrow> pyvalue \<Rightarrow> pyvalue \<Rightarrow> IntermediateCodeGenerator
     \<Rightarrow> IntermediateCodeGenerator" where
  "emit opr arg1 arg2 res g = g\<lparr>code := code g @ [(opr, arg1, arg2, res)]\<rparr>"

text \<open>
  A session of the generator: any sequence of calls of its three methods. The run
  collects the temporaries and the labels it hands out, in the order of issue.
\<close>

datatype gen_call = NewTemp | NewLabel | Emit instruction

fun run_calls ::
  "gen_call list \<Rightarrow> IntermediateCodeGenerator
     \<Rightarrow> string list \<times> string list \<times> IntermediateCodeGenerator" where
  "run_calls [] g = ([], [], g)"
| "run_calls (NewTemp # cs) g =
     (let (t, g1) = new_temp g; (ts, ls, g2) = run_calls cs g1 in (t # ts, ls, g2))"
| "run_calls (NewLabel # cs) g =
     (let (l, g1) = new_label g; (ts, ls, g2) = run_calls cs g1 in (ts, l # ls, g2))"
| "run_calls (Emit (opr, a1, a2, r) # cs) g = run_calls cs (emit opr a1 a2 r g)"

text \<open>Example scopes: an outer scope that binds \<open>x\<close>, and an empty scope nested in it.\<close>

definition outer_scope :: SymbolTable where
  "outer_scope =
     SymbolTable (Map.empty(''x'' \<mapsto> \<lparr>sym_type = Sym INT_T, is_const = False\<rparr>)) None"

definition inner_scope :: SymbolTable where
  "inner_scope = SymbolTable Map.empty (Some outer_scope)"

section \<open>SemanticAnalyzer\<close>

text \<open>
  An entry of \<^verbatim>\<open>self.functions\<close>: the dictionary with the keys \<^verbatim>\<open>return_type\<close> and
  \<^verbatim>\<open>params\<close> that the caller registers before a call to the function is analyzed.
\<close>

record func_info =
  return_type :: SymbolInfo
  params :: "SymbolInfo list"

record SemanticAnalyzer =
  current_scope :: SymbolTable
  code_gen :: IntermediateCodeGenerator
  "functions" :: "string \<rightharpoonup> func_info"

definition init_analyzer :: SemanticAnalyzer where
  "init_analyzer =
     \<lparr>current_scope = SymbolTable Map.empty None, code_gen = init_code_gen,
      functions = Map.empty\<rparr>"

definition enter_scope :: "SemanticAnalyzer \<Rightarrow> SemanticAnalyzer" where
  "enter_scope s = s\<lparr>current_scope := SymbolTable Map.empty (Some (current_scope s))\<rparr>"

definition exit_scope :: "SemanticAnalyzer \<Rightarrow> SemanticAnalyzer" where
  "exit_scope s =
     (case parent (current_scope s) of
        Some p \<Rightarrow> s\<lparr>current_scope := p\<rparr>
      | None \<Rightarrow> s)"

text \<open>
  \<^verbatim>\<open>except ValueError as e: raise ValueError(f"<prefix>: {str(e)}")\<close>: only a ValueError is
  caught and rewrapped; any other exception passes through.
\<close>

fun rewrap :: "(message \<Rightarrow> message) \<Rightarrow> error \<Rightarrow> error" where
  "rewrap f (ValueError m) = ValueError (f m)"
| "rewrap f e = e"

fun is_ArrayType :: "SymbolInfo \<Rightarrow> bool" where
  "is_ArrayType (ArrayType b n) = True"
| "is_ArrayType t = False"

definition analyze_declaration ::
  "string \<Rightarrow> string \<Rightarrow> bool \<Rightarrow> int option \<Rightarrow> SemanticAnalyzer \<Rightarrow> error + SemanticAnalyzer" where
  "analyze_declaration type_spec var_name c array_size s =
     (case (case array_size of
              Some n \<Rightarrow>
                if n \<le> 0 then Inl (ValueError ArraySizeNotPositive)
                else (case SymbolType_of_value type_spec of
                        None \<Rightarrow> Inl (ValueError (NotAValidSymbolType type_spec))
                      | Some base_type \<Rightarrow> Inr (ArrayType base_type n))
            | None \<Rightarrow>
                (case SymbolType_of_value type_spec of
                   None \<Rightarrow> Inl (ValueError (NotAValidSymbolType type_spec))
                 | Some t \<Rightarrow> Inr (Sym t))) of
        Inl e \<Rightarrow> Inl (rewrap DeclarationError e)
      | Inr symbol_type \<Rightarrow>
          (case add_symbol var_name symbol_type c (current_scope s) of
             Inl e \<Rightarrow> Inl (rewrap DeclarationError e)
           | Inr sc \<Rightarrow> Inr (s\<lparr>current_scope := sc\<rparr>)))"

definition analyze_assignment ::
  "string \<Rightarrow> SymbolInfo option \<Rightarrow> SymbolTable \<Rightarrow> error + SymbolInfo" where
  "analyze_assignment var_name expr_type sc =
     (case check_symbol var_name sc of
        Inl e \<Rightarrow> Inl (rewrap AssignmentError e)
      | Inr var_info \<Rightarrow>
          if is_const var_info
          then Inl (ValueError (AssignmentError (CannotAssignToConstant var_name)))
          else if is_ArrayType (sym_type var_info)
          then Inl (ValueError (AssignmentError (CannotAssignToArray var_name)))
          else if Some (sym_type var_info) \<noteq> expr_type
          then (if sym_type var_info = Sym FLOAT \<and> expr_type = Some (Sym INT_T)
                then Inr (Sym FLOAT)
                else Inl (ValueError (AssignmentError (AssignmentTypeMismatch var_name))))
          else Inr (sym_type var_info))"

text \<open>
  \<^verbatim>\<open>{left_type, right_type}\<close> hashes both types; the two dataclasses define equality
  and no hash, so a set holding one of them cannot be built.
\<close>

fun unhashable :: "SymbolInfo option \<Rightarrow> bool" where
  "unhashable (Some (ArrayType b n)) = True"
| "unhashable (Some (FunctionType r ps)) = True"
| "unhashable t = False"

definition analyze_binary_op ::
  "SymbolInfo option \<Rightarrow> SymbolInfo option \<Rightarrow> string \<Rightarrow> error + SymbolInfo" where
  "analyze_binary_op left_type right_type opr =
     (if opr \<in> set [''+'', ''-'', ''*'', ''/'']
      then (if left_type \<notin> set [Some (Sym INT_T), Some (Sym FLOAT)]
               \<or> right_type \<notin> set [Some (Sym INT_T), Some (Sym FLOAT)]
            then Inl (ValueError (InvalidOperands opr))
            else if left_type = Some (Sym FLOAT) \<or> right_type = Some (Sym FLOAT)
            then Inr (Sym FLOAT)
            else Inr (Sym INT_T))
      else if opr \<in> set [''<'', ''>'', ''<='', ''>='', ''=='', ''!='']
      then (if left_type \<noteq> right_type
            then (if unhashable left_type \<or> unhashable right_type then Inl UnhashableType
                  else if {left_type, right_type} = {Some (Sym INT_T), Some (Sym FLOAT)}
                  then Inr (Sym BOOL)
                  else Inl (ValueError (RelationalTypeMismatch opr)))
            else Inr (Sym BOOL))
      else if opr \<in> set [''&&'', ''||'']
      then (if left_type \<noteq> Some (Sym BOOL) \<or> right_type \<noteq> Some (Sym BOOL)
            then Inl (ValueError (InvalidLogicalOperands opr))
            else Inr (Sym BOOL))
      else Inl (ValueError (UnknownOperator opr)))"

definition analyze_unary_op :: "SymbolInfo option \<Rightarrow> string \<Rightarrow> error + SymbolInfo" where
  "analyze_unary_op operand_type opr =
     (if opr = ''!''
      then (if operand_type \<noteq> Some (Sym BOOL) then Inl (ValueError InvalidNotOperand)
            else Inr (Sym BOOL))
      else if opr = ''-''
      then (case operand_type of
              Some t \<Rightarrow>
                if t \<notin> set [Sym INT_T, Sym FLOAT] then Inl (ValueError InvalidNegOperand)
                else Inr t
            | None \<Rightarrow> Inl (ValueError InvalidNegOperand))
      else Inl (ValueError (UnknownUnaryOperator opr)))"

definition analyze_array_access ::
  "string \<Rightarrow> SymbolInfo option \<Rightarrow> SymbolTable \<Rightarrow> error + SymbolType" where
  "analyze_array_access array_name index_type sc =
     (case check_symbol array_name sc of
        Inl e \<Rightarrow> Inl (rewrap ArrayAccessError e)
      | Inr array_info \<Rightarrow>
          (case sym_type array_info of
             ArrayType base_type n \<Rightarrow>
               if index_type \<noteq> Some (Sym INT_T)
               then Inl (ValueError (ArrayAccessError IndexNotInteger))
               else Inr base_type
           | _ \<Rightarrow> Inl (ValueError (ArrayAccessError (NotAnArray array_name)))))"

text \<open>
  The loop over \<^verbatim>\<open>enumerate(zip(arg_types, func_info['params']))\<close>: the position,
  counted from 0, of the first argument whose type differs from the parameter's.
\<close>

fun first_mismatch :: "nat \<Rightarrow> SymbolInfo option list \<Rightarrow> SymbolInfo list \<Rightarrow> nat option" where
  "first_mismatch i (arg_type # as) (param_type # ps) =
     (if arg_type \<noteq> Some param_type then Some i else first_mismatch (Suc i) as ps)"
| "first_mismatch i as ps = None"

definition analyze_function_call ::
  "string \<Rightarrow> SymbolInfo option list \<Rightarrow> (string \<rightharpoonup> func_info) \<Rightarrow> error + SymbolInfo" where
  "analyze_function_call func_name arg_types funs =
     (case funs func_name of
        None \<Rightarrow> Inl (ValueError (FunctionNotDeclared func_name))
      | Some info \<Rightarrow>
          if length arg_types \<noteq> length (params info)
          then Inl (ValueError (ExpectsArguments func_name (length (params info))))
          else (case first_mismatch 0 arg_types (params info) of
                  Some i \<Rightarrow> Inl (ValueError (ArgumentTypeMismatch (i + 1) func_name))
                | None \<Rightarrow> Inr (return_type info)))"

text \<open>The three methods of \<^verbatim>\<open>self.code_gen\<close>, called on the analyzer's generator.\<close>

definition gen_new_temp :: "SemanticAnalyzer \<Rightarrow> string \<times> SemanticAnalyzer" where
  "gen_new_temp s = (fst (new_temp (code_gen s)), s\<lparr>code_gen := snd (new_temp (code_gen s))\<rparr>)"

definition gen_new_label :: "SemanticAnalyzer \<Rightarrow> string \<times> SemanticAnalyzer" where
  "gen_new_label s = (fst (new_label (code_gen s)), s\<lparr>code_gen := snd (new_label (code_gen s))\<rparr>)"

definition gen_emit ::
  "string \<Rightarrow> pyvalue \<Rightarrow> pyvalue \<Rightarrow> pyvalue \<Rightarrow> SemanticAnalyzer \<Rightarrow> SemanticAnalyzer" where
  "gen_emit opr arg1 arg2 res s = s\<lparr>code_gen := emit opr arg1 arg2 res (code_gen s)\<rparr>"

text \<open>
  The nodes \<^verbatim>\<open>generate_code\<close> receives: dictionaries with a \<^verbatim>\<open>type\<close> tag and the
  fields of that kind. The keys \<^verbatim>\<open>array_size\<close>, \<^verbatim>\<open>index\<close> and \<^verbatim>\<open>else_block\<close> may be
  absent; an absent \<^verbatim>\<open>is_const\<close> reads as False. \<open>Block\<close> is the node
  \<^verbatim>\<open>{'type': 'block', 'statements': [...]}\<close> that the tests and the sample tree of the
  source file build. \<open>Other t\<close> is a dictionary that holds the tag \<open>t\<close> and none of the
  fields the analyzer reads.
\<close>

datatype node =
    Declaration string string bool "int option"
  | Assignment string "node option" node
  | Binary_op string node node
  | Unary_op string node
  | Array_access string node
  | If_stmt node node "node option"
  | While_stmt node node
  | Function_call string "node list"
  | Variable string
  | Literal pyvalue
  | Block "node list"
  | Other string

fun node_type :: "node \<Rightarrow> string" where
  "node_type (Declaration data_type var_name c array_size) = ''declaration''"
| "node_type (Assignment var_name idx e) = ''assignment''"
| "node_type (Binary_op opr l r) = ''binary_op''"
| "node_type (Unary_op opr operand) = ''unary_op''"
| "node_type (Array_access array_name idx) = ''array_access''"
| "node_type (If_stmt c t e) = ''if''"
| "node_type (While_stmt c b) = ''while''"
| "node_type (Function_call func_name args) = ''function_call''"
| "node_type (Variable name) = ''variable''"
| "node_type (Literal v) = ''literal''"
| "node_type (Block statements) = ''block''"
| "node_type (Other t) = t"

definition handled_types :: "string list" where
  "handled_types =
     [''declaration'', ''assignment'', ''binary_op'', ''unary_op'', ''array_access'',
      ''if'', ''while'', ''function_call'', ''variable'', ''literal'']"

text \<open>The \<^verbatim>\<open>literal\<close> branch: the type of a literal from the shape of its value.\<close>

fun literal_type :: "pyvalue \<Rightarrow> error + SymbolInfo" where
  "literal_type (VBool b) = Inr (Sym BOOL)"
| "literal_type (VInt i) = Inr (Sym INT_T)"
| "literal_type (VFloat f) = Inr (Sym FLOAT)"
| "literal_type (VStr v) =
     (if length v = 1 then Inr (Sym CHAR_T) else Inl (ValueError (InvalidLiteralValue (VStr v))))"
| "literal_type v = Inl (ValueError (InvalidLiteralValue v))"

text \<open>
  \<^verbatim>\<open>generate_code\<close>. The analyzer state is threaded through and returned also when the
  call raises, since what was emitted or declared before the exception stays in the
  analyzer. The last equation is the fall-through \<^verbatim>\<open>return None, None\<close>; a dictionary
  that carries one of the ten handled tags but none of its fields raises KeyError at the
  first field read (for \<^verbatim>\<open>while\<close>, after the two labels and the start label).
  \<open>generate_args\<close> is the loop over \<^verbatim>\<open>node['args']\<close>.
\<close>

fun generate_code ::
    "node \<Rightarrow> SemanticAnalyzer \<Rightarrow> (error + pyvalue \<times> SymbolInfo option) \<times> SemanticAnalyzer"
  and generate_args ::
    "node list \<Rightarrow> SemanticAnalyzer
       \<Rightarrow> (error + pyvalue list \<times> SymbolInfo option list) \<times> SemanticAnalyzer"
where
  "generate_code (Declaration data_type var_name c array_size) s =
     (case analyze_declaration data_type var_name c array_size s of
        Inl err \<Rightarrow> (Inl err, s)
      | Inr s1 \<Rightarrow>
          (case array_size of
             Some n \<Rightarrow> (Inr (VNone, None), gen_emit ''alloc'' (VStr var_name) (VInt n) VNone s1)
           | None \<Rightarrow> (Inr (VNone, None), s1)))"
| "generate_code (Assignment var_name (Some idx) e) s =
     (case generate_code idx s of
        (Inl err, s1) \<Rightarrow> (Inl err, s1)
      | (Inr (index_result, index_type), s1) \<Rightarrow>
          (case analyze_array_access var_name index_type (current_scope s1) of
             Inl err \<Rightarrow> (Inl err, s1)
           | Inr array_type \<Rightarrow>
               (case generate_code e s1 of
                  (Inl err, s2) \<Rightarrow> (Inl err, s2)
                | (Inr (expr_result, expr_type), s2) \<Rightarrow>
                    if Some (Sym array_type) \<noteq> expr_type
                    then (Inl (ValueError (ArrayElementTypeMismatch var_name)), s2)
                    else (let (temp, s3) = gen_new_temp s2
                          in (Inr (VNone, None),
                              gen_emit ''arraystore'' (VStr var_name) index_result expr_result s3)))))"
| "generate_code (Assignment var_name None e) s =
     (case generate_code e s of
        (Inl err, s1) \<Rightarrow> (Inl err, s1)
      | (Inr (expr_result, expr_type), s1) \<Rightarrow>
          (case analyze_assignment var_name expr_type (current_scope s1) of
             Inl err \<Rightarrow> (Inl err, s1)
           | Inr result_type \<Rightarrow>
               if result_type = Sym FLOAT \<and> expr_type = Some (Sym INT_T)
               then (let (temp, s2) = gen_new_temp s1;
                         s3 = gen_emit ''inttofloat'' expr_result VNone (VStr temp) s2
                     in (Inr (VNone, None), gen_emit ''='' (VStr temp) VNone (VStr var_name) s3))
               else (Inr (VNone, None), gen_emit ''='' expr_result VNone (VStr var_name) s1)))"
| "generate_code (Binary_op opr left right) s =
     (case generate_code left s of
        (Inl err, s1) \<Rightarrow> (Inl err, s1)
      | (Inr (left_result, left_type), s1) \<Rightarrow>
          (case generate_code right s1 of
             (Inl err, s2) \<Rightarrow> (Inl err, s2)
           | (Inr (right_result, right_type), s2) \<Rightarrow>
               (case analyze_binary_op left_type right_type opr of
                  Inl err \<Rightarrow> (Inl err, s2)
                | Inr result_type \<Rightarrow>
                    (let (temp, s3) = gen_new_temp s2
                     in (Inr (VStr temp, Some result_type),
                         gen_emit opr left_result right_result (VStr temp) s3)))))"
| "generate_code (Unary_op opr operand) s =
     (case generate_code operand s of
        (Inl err, s1) \<Rightarrow> (Inl err, s1)
      | (Inr (operand_result, operand_type), s1) \<Rightarrow>
          (case analyze_unary_op operand_type opr of
             Inl err \<Rightarrow> (Inl err, s1)
           | Inr result_type \<Rightarrow>
               (let (temp, s2) = gen_new_temp s1
                in (Inr (VStr temp, Some result_type),
                    gen_emit opr operand_result VNone (VStr temp) s2))))"
| "generate_code (Array_access array_name idx) s =
     (case check_symbol array_name (current_scope s) of
        Inl err \<Rightarrow> (Inl err, s)
      | Inr array_info \<Rightarrow>
          (case generate_code idx s of
             (Inl err, s1) \<Rightarrow> (Inl err, s1)
           | (Inr (index_result, index_type), s1) \<Rightarrow>
               (case analyze_array_access array_name index_type (current_scope s1) of
                  Inl err \<Rightarrow> (Inl err, s1)
                | Inr element_type \<Rightarrow>
                    (let (temp, s2) = gen_new_temp s1
                     in (Inr (VStr temp, Some (Sym element_type)),
                         gen_emit ''arrayload'' (VStr array_name) index_result (VStr temp) s2)))))"
| "generate_code (If_stmt condition then_block else_block) s =
     (case generate_code condition s of
        (Inl err, s1) \<Rightarrow> (Inl err, s1)
      | (Inr (cond_result, cond_type), s1) \<Rightarrow>
          if cond_type \<noteq> Some (Sym BOOL) then (Inl (ValueError IfConditionNotBoolean), s1)
          else (let (else_label, s2) = gen_new_label s1;
                    (end_label, s3) = gen_new_label s2;
                    s4 = gen_emit ''ifnot'' cond_result VNone (VStr else_label) s3
                in (case generate_code then_block s4 of
                      (Inl err, s5) \<Rightarrow> (Inl err, s5)
                    | (Inr r, s5) \<Rightarrow>
                        (case else_block of
                           None \<Rightarrow>
                             (Inr (VNone, None), gen_emit ''label'' (VStr else_label) VNone VNone s5)
                         | Some eb \<Rightarrow>
                             (let s6 = gen_emit ''goto'' VNone VNone (VStr end_label) s5;
                                  s7 = gen_emit ''label'' (VStr else_label) VNone VNone s6
                              in (case generate_code eb s7 of
                                    (Inl err, s8) \<Rightarrow> (Inl err, s8)
                                  | (Inr r2, s8) \<Rightarrow>
                                      (Inr (VNone, None),
                                       gen_emit ''label'' (VStr end_label) VNone VNone s8)))))))"
| "generate_code (While_stmt condition body) s =
     (let (start_label, s1) = gen_new_label s;
          (end_label, s2) = gen_new_label s1;
          s3 = gen_emit ''label'' (VStr start_label) VNone VNone s2
      in (case generate_code condition s3 of
            (Inl err, s4) \<Rightarrow> (Inl err, s4)
          | (Inr (cond_result, cond_type), s4) \<Rightarrow>
              if cond_type \<noteq> Some (Sym BOOL)
              then (Inl (ValueError WhileConditionNotBoolean), s4)
              else (let s5 = gen_emit ''ifnot'' cond_result VNone (VStr end_label) s4
                    in (case generate_code body s5 of
                          (Inl err, s6) \<Rightarrow> (Inl err, s6)
                        | (Inr r, s6) \<Rightarrow>
                            (let s7 = gen_emit ''goto'' VNone VNone (VStr start_label) s6
                             in (Inr (VNone, None),
                                 gen_emit ''label'' (VStr end_label) VNone VNone s7))))))"
| "generate_code (Function_call func_name args) s =
     (case generate_args args s of
        (Inl err, s1) \<Rightarrow> (Inl err, s1)
      | (Inr (arg_results, arg_types), s1) \<Rightarrow>
          (case analyze_function_call func_name arg_types (functions s1) of
             Inl err \<Rightarrow> (Inl err, s1)
           | Inr ret \<Rightarrow>
               if ret \<noteq> Sym INT_T
               then (Inr (VNone, None),
                     gen_emit ''call'' (VStr func_name) (VList arg_results) VNone s1)
               else (let (temp, s2) = gen_new_temp s1
                     in (Inr (VStr temp, Some ret),
                         gen_emit ''call'' (VStr func_name) (VList arg_results) (VStr temp) s2))))"
| "generate_code (Variable name) s =
     (case check_symbol name (current_scope s) of
        Inl err \<Rightarrow> (Inl err, s)
      | Inr var_info \<Rightarrow> (Inr (VStr name, Some (sym_type var_info)), s))"
| "generate_code (Literal v) s =
     (case literal_type v of
        Inl err \<Rightarrow> (Inl err, s)
      | Inr t \<Rightarrow> (Inr (v, Some t), s))"
| "generate_code (Block statements) s = (Inr (VNone, None), s)"
| "generate_code (Other t) s =
     (if t = ''declaration'' then (Inl (KeyError ''data_type''), s)
      else if t = ''assignment'' then (Inl (KeyError ''expr''), s)
      else if t = ''binary_op'' then (Inl (KeyError ''left''), s)
      else if t = ''unary_op'' then (Inl (KeyError ''operand''), s)
      else if t = ''array_access'' then (Inl (KeyError ''array_name''), s)
      else if t = ''if'' then (Inl (KeyError ''condition''), s)
      else if t = ''while''
      then (let (start_label, s1) = gen_new_label s;
                (end_label, s2) = gen_new_label s1
            in (Inl (KeyError ''condition''),
                gen_emit ''label'' (VStr start_label) VNone VNone s2))
      else if t = ''function_call'' then (Inl (KeyError ''args''), s)
      else if t = ''variable'' then (Inl (KeyError ''name''), s)
      else if t = ''literal'' then (Inl (KeyError ''value''), s)
      else (Inr (VNone, None), s))"
| "generate_args [] s = (Inr ([], []), s)"
| "generate_args (arg # rest) s =
     (case generate_code arg s of
        (Inl err, s1) \<Rightarrow> (Inl err, s1)
      | (Inr (res, typ), s1) \<Rightarrow>
          (case generate_args rest s1 of
             (Inl err, s2) \<Rightarrow> (Inl err, s2)
           | (Inr (arg_results, arg_types), s2) \<Rightarrow>
               (Inr (res # arg_results, typ # arg_types), s2)))"

text \<open>
  The inputs of \<^verbatim>\<open>test_if_statement\<close>: the analyzer after \<^verbatim>\<open>int x\<close> has been declared, and
  the conditional \<^verbatim>\<open>if (x > 0) { x = 1; }\<close> whose then-branch is a block node.
\<close>

definition x_analyzer :: SemanticAnalyzer where
  "x_analyzer = snd (generate_code (Declaration ''int'' ''x'' False None) init_analyzer)"

definition if_node :: node where
  "if_node =
     If_stmt (Binary_op ''>'' (Variable ''x'') (Literal (VInt 0)))
             (Block [Assignment ''x'' None (Literal (VInt 1))])
             None"

text \<open>
  An analyzer with two registered functions, the \<^verbatim>\<open>pow\<close> of \<^verbatim>\<open>test_invalid_function_call\<close>
  and the \<^verbatim>\<open>factorial\<close> of the sample program, and a well-typed call of each.
\<close>

definition pow_analyzer :: SemanticAnalyzer where
  "pow_analyzer = init_analyzer
     \<lparr>functions := [''pow'' \<mapsto> \<lparr>return_type = Sym FLOAT, params = [Sym FLOAT, Sym FLOAT]\<rparr>,
                     ''factorial'' \<mapsto> \<lparr>return_type = Sym INT_T, params = [Sym INT_T]\<rparr>]\<rparr>"

definition call_pow :: node where
  "call_pow = Function_call ''pow'' [Literal (VFloat 2), Literal (VFloat 3)]"

definition call_factorial :: node where
  "call_factorial = Function_call ''factorial'' [Literal (VInt 5)]"

text \<open>
  The inputs of \<^verbatim>\<open>test_const_assignment\<close>, with a right-hand side that emits an
  instruction: the analyzer after \<^verbatim>\<open>const int MAX\<close>, and \<^verbatim>\<open>MAX = 1 + 2\<close>.
\<close>

definition const_analyzer :: SemanticAnalyzer where
  "const_analyzer = snd (generate_code (Declaration ''int'' ''MAX'' True None) init_analyzer)"

definition assign_const :: node where
  "assign_const =
     Assignment ''MAX'' None (Binary_op ''+'' (Literal (VInt 1)) (Literal (VInt 2)))"

text \<open>
  An analyzer in which \<^verbatim>\<open>int x\<close>, \<^verbatim>\<open>float y\<close>, \<^verbatim>\<open>const int MAX\<close>, \<^verbatim>\<open>int arr[5]\<close> and
  \<^verbatim>\<open>float farr[5]\<close> have been declared.
\<close>

definition sample_analyzer :: SemanticAnalyzer where
  "sample_analyzer =
     foldl (\<lambda>s d. snd (generate_code d s)) init_analyzer
       [Declaration ''int'' ''x'' False None,
        Declaration ''float'' ''y'' False None,
        Declaration ''int'' ''MAX'' True None,
        Declaration ''int'' ''arr'' False (Some 5),
        Declaration ''float'' ''farr'' False (Some 5)]"

text \<open>
  What the analysis of a node adds to the instruction log: the log after the call without
  the entries that were there before, and the relation "the log of \<open>s'\<close> starts with the log
  of \<open>s\<close>".
\<close>

definition emitted :: "node \<Rightarrow> SemanticAnalyzer \<Rightarrow> instruction list" where
  "emitted n s = drop (length (code (code_gen s))) (code (code_gen (snd (generate_code n s))))"

definition log_extends :: "SemanticAnalyzer \<Rightarrow> SemanticAnalyzer \<Rightarrow> bool" where
  "log_extends s s' \<longleftrightarrow> (\<exists>xs. code (code_gen s') = code (code_gen s) @ xs)"

text \<open>
  The condition of \<^verbatim>\<open>test_while_loop\<close>, \<^verbatim>\<open>1 < 2\<close>, and the analyzer in which a loop
  entered from the initial analyzer evaluates its condition: two labels taken, the start
  label emitted.
\<close>

definition while_cond :: node where
  "while_cond = Binary_op ''<'' (Literal (VInt 1)) (Literal (VInt 2))"

definition while_entry :: SemanticAnalyzer where
  "while_entry =
     init_analyzer\<lparr>code_gen := (code_gen init_analyzer)
       \<lparr>code := code (code_gen init_analyzer) @ [(''label'', VStr ''L0'', VNone, VNone)],
        label_count := label_count (code_gen init_analyzer) + 2\<rparr>\<rparr>"


section \<open>Verified properties\<close>

subsection \<open>SymbolTable: declaration and resolution\<close>

lemma check_symbol_find:
  "check_symbol name sc =
     (case find (\<lambda>t. name \<in> dom t) (scope_chain sc) of
        Some t \<Rightarrow> Inr (the (t name))
      | None \<Rightarrow> Inl (ValueError (NotDeclared name)))"
  by (induction name sc rule: check_symbol.induct) (auto split: option.splits)

text \<open>
  Claim C7. \<open>add_symbol\<close> (the spec's declare) fails exactly when the name is already in
  the table of the current scope, and then with the "already declared" ValueError (the
  spec's DeclarationError); the parent scopes are not consulted, so a name bound only in an
  outer scope is declared without error and the new entry is what resolution then returns.
  \<open>check_symbol\<close> (the spec's resolve) returns the entry of the first scope of the chain,
  innermost first, that binds the name, and fails exactly when no scope of the chain binds
  it, with the "not declared" ValueError (the spec's NameError).
\<close>

theorem symbol_table_declare_resolve:
  "((\<exists>e. add_symbol name ty c sc = Inl e) \<longleftrightarrow> name \<in> dom (table sc))
   \<and> (name \<in> dom (table sc) \<longrightarrow>
        add_symbol name ty c sc = Inl (ValueError (AlreadyDeclared name)))
   \<and> (name \<notin> dom (table sc) \<longrightarrow>
        (\<exists>sc'. add_symbol name ty c sc = Inr sc'
           \<and> parent sc' = parent sc
           \<and> (\<forall>n. n \<noteq> name \<longrightarrow> table sc' n = table sc n)
           \<and> check_symbol name sc' = Inr \<lparr>sym_type = ty, is_const = c\<rparr>))
   \<and> check_symbol name sc =
        (case find (\<lambda>t. name \<in> dom t) (scope_chain sc) of
           Some t \<Rightarrow> Inr (the (t name))
         | None \<Rightarrow> Inl (ValueError (NotDeclared name)))
   \<and> ((\<exists>e. check_symbol name sc = Inl e) \<longleftrightarrow> (\<forall>t \<in> set (scope_chain sc). name \<notin> dom t))
   \<and> ((\<forall>t \<in> set (scope_chain sc). name \<notin> dom t) \<longrightarrow>
        check_symbol name sc = Inl (ValueError (NotDeclared name)))"
proof -
  have a: "(\<exists>e. add_symbol name ty c sc = Inl e) \<longleftrightarrow> name \<in> dom (table sc)"
    by (simp add: add_symbol_def)
  have b: "name \<in> dom (table sc) \<longrightarrow>
        add_symbol name ty c sc = Inl (ValueError (AlreadyDeclared name))"
    by (simp add: add_symbol_def)
  have c: "name \<notin> dom (table sc) \<longrightarrow>
        (\<exists>sc'. add_symbol name ty c sc = Inr sc'
           \<and> parent sc' = parent sc
           \<and> (\<forall>n. n \<noteq> name \<longrightarrow> table sc' n = table sc n)
           \<and> check_symbol name sc' = Inr \<lparr>sym_type = ty, is_const = c\<rparr>)"
    by (cases sc; cases "parent sc") (auto simp: add_symbol_def)
  have d: "(\<exists>e. check_symbol name sc = Inl e) \<longleftrightarrow> (\<forall>t \<in> set (scope_chain sc). name \<notin> dom t)"
    by (induction name sc rule: check_symbol.induct) (auto split: option.splits)
  have e: "(\<forall>t \<in> set (scope_chain sc). name \<notin> dom t) \<longrightarrow>
        check_symbol name sc = Inl (ValueError (NotDeclared name))"
    by (induction name sc rule: check_symbol.induct) (auto split: option.splits)
  from a b c d e check_symbol_find show ?thesis by blast
qed

theorem symbol_table_declare_resolve_witness:
  "''x'' \<notin> dom (table inner_scope)
   \<and> check_symbol ''x'' inner_scope = Inr \<lparr>sym_type = Sym INT_T, is_const = False\<rparr>
   \<and> (\<exists>sc'. add_symbol ''x'' (Sym FLOAT) False inner_scope = Inr sc'
         \<and> check_symbol ''x'' sc' = Inr \<lparr>sym_type = Sym FLOAT, is_const = False\<rparr>)
   \<and> ''x'' \<in> dom (table outer_scope)
   \<and> add_symbol ''x'' (Sym FLOAT) False outer_scope = Inl (ValueError (AlreadyDeclared ''x''))
   \<and> find (\<lambda>t. ''y'' \<in> dom t) (scope_chain inner_scope) = None
   \<and> check_symbol ''y'' inner_scope = Inl (ValueError (NotDeclared ''y''))"
  using symbol_table_declare_resolve [of "''x''" "Sym FLOAT" False inner_scope]
        symbol_table_declare_resolve [of "''x''" "Sym FLOAT" False outer_scope]
        symbol_table_declare_resolve [of "''y''" "Sym FLOAT" False inner_scope]
  by (simp add: inner_scope_def outer_scope_def add_symbol_def)

subsection \<open>IntermediateCodeGenerator: temporaries and labels\<close>

lemma digit_char_inj: "a < 10 \<Longrightarrow> b < 10 \<Longrightarrow> digit_char a = digit_char b \<Longrightarrow> a = b"
proof -
  assume a: "a < 10" and b: "b < 10" and e: "digit_char a = digit_char b"
  from e have "(of_char (char_of (48 + a) :: char) :: nat) = of_char (char_of (48 + b) :: char)"
    by (simp add: digit_char_def)
  with a b show "a = b" by (simp add: of_char_of)
qed

lemma str_nat_length: "length (str_nat n) = 1 \<longleftrightarrow> n < 10"
proof (cases "n < 10")
  case True
  then show ?thesis by (subst str_nat.simps) simp
next
  case False
  have "str_nat (n div 10) \<noteq> []"
    by (subst str_nat.simps) simp
  with False show ?thesis by (subst str_nat.simps) simp
qed


lemma str_nat_unfold_small: "n < 10 \<Longrightarrow> str_nat n = [digit_char n]"
  by (subst str_nat.simps) simp

lemma str_nat_unfold_big:
  "\<not> n < 10 \<Longrightarrow> str_nat n = str_nat (n div 10) @ [digit_char (n mod 10)]"
  by (subst str_nat.simps) simp

lemma str_nat_inj: "str_nat m = str_nat n \<Longrightarrow> m = n"
proof (induction m arbitrary: n rule: str_nat.induct)
  case (1 m)
  show ?case
  proof (cases "m < 10")
    case True
    with "1.prems" have n: "n < 10"
      using str_nat_length [of m] str_nat_length [of n] by simp
    from "1.prems" have "digit_char m = digit_char n"
      by (simp add: str_nat_unfold_small [OF True] str_nat_unfold_small [OF n])
    with True n show ?thesis by (rule digit_char_inj)
  next
    case False
    with "1.prems" have n: "\<not> n < 10"
      using str_nat_length [of m] str_nat_length [of n] by simp
    from "1.prems" have
      "str_nat (m div 10) = str_nat (n div 10)" "digit_char (m mod 10) = digit_char (n mod 10)"
      by (simp_all add: str_nat_unfold_big [OF False] str_nat_unfold_big [OF n])
    with "1.IH" [OF False] have "m div 10 = n div 10" "m mod 10 = n mod 10"
      by (auto intro: digit_char_inj)
    then have "m div 10 * 10 + m mod 10 = n div 10 * 10 + n mod 10" by simp
    then show ?thesis by (simp only: div_mult_mod_eq)
  qed
qed


lemma upt_add_Suc: "[n ..< Suc (n + k)] = n # [Suc n ..< Suc (n + k)]"
  by (subst upt_rec) simp

lemma run_calls_issue:
  "run_calls cs g = (ts, ls, g') \<Longrightarrow>
     ts = map (\<lambda>i. ''t'' @ str_nat i) [temp_count g ..< temp_count g + length ts]
   \<and> ls = map (\<lambda>i. ''L'' @ str_nat i) [label_count g ..< label_count g + length ls]
   \<and> temp_count g' = temp_count g + length ts
   \<and> label_count g' = label_count g + length ls"
proof (induction cs g arbitrary: ts ls g' rule: run_calls.induct)
  case (1 g)
  then show ?case by simp
next
  case (2 cs g)
  obtain ts' ls' g2 where r: "run_calls cs (snd (new_temp g)) = (ts', ls', g2)"
    by (cases "run_calls cs (snd (new_temp g))") auto
  from "2.prems" r have eq: "ts = fst (new_temp g) # ts'" "ls = ls'" "g' = g2"
    by (auto simp: case_prod_unfold)
  from "2.IH" [OF refl prod.collapse r]
  have ih: "ts' = map (\<lambda>i. ''t'' @ str_nat i) [Suc (temp_count g) ..< Suc (temp_count g) + length ts']"
    "ls' = map (\<lambda>i. ''L'' @ str_nat i) [label_count g ..< label_count g + length ls']"
    "temp_count g2 = Suc (temp_count g) + length ts'"
    "label_count g2 = label_count g + length ls'"
    by (simp_all add: new_temp_def)
  have "ts = map (\<lambda>i. ''t'' @ str_nat i) [temp_count g ..< temp_count g + length ts]"
    unfolding eq(1) using ih(1) by (simp add: upt_add_Suc new_temp_def del: upt_Suc)
  with eq ih show ?case by simp
next
  case (3 cs g)
  obtain ts' ls' g2 where r: "run_calls cs (snd (new_label g)) = (ts', ls', g2)"
    by (cases "run_calls cs (snd (new_label g))") auto
  from "3.prems" r have eq: "ts = ts'" "ls = fst (new_label g) # ls'" "g' = g2"
    by (auto simp: case_prod_unfold)
  from "3.IH" [OF refl prod.collapse r]
  have ih: "ts' = map (\<lambda>i. ''t'' @ str_nat i) [temp_count g ..< temp_count g + length ts']"
    "ls' = map (\<lambda>i. ''L'' @ str_nat i) [Suc (label_count g) ..< Suc (label_count g) + length ls']"
    "temp_count g2 = temp_count g + length ts'"
    "label_count g2 = Suc (label_count g) + length ls'"
    by (simp_all add: new_label_def)
  have "ls = map (\<lambda>i. ''L'' @ str_nat i) [label_count g ..< label_count g + length ls]"
    unfolding eq(2) using ih(2) by (simp add: upt_add_Suc new_label_def del: upt_Suc)
  with eq ih show ?case by simp
next
  case (4 opr a1 a2 r cs g)
  from "4.IH" [of ts ls g'] "4.prems" show ?case by (simp add: emit_def)
qed


text \<open>
  Claim C8. Whatever sequence of calls a session makes on the generator, the temporaries it
  hands out are \<open>t\<close> followed by the decimal value of the temporary counter and the
  labels are \<open>L\<close> followed by the value of the label counter; each counter starts
  where the session found it and is only ever incremented, so the numbers issued are the
  consecutive values from the initial to the final counter, in increasing order, and no
  identifier of either kind is issued twice.
\<close>

theorem issued_identifiers_increasing_unique:
  "run_calls cs g = (ts, ls, g') \<Longrightarrow>
     ts = map (\<lambda>i. ''t'' @ str_nat i) [temp_count g ..< temp_count g']
   \<and> ls = map (\<lambda>i. ''L'' @ str_nat i) [label_count g ..< label_count g']
   \<and> temp_count g \<le> temp_count g' \<and> label_count g \<le> label_count g'
   \<and> distinct (ts @ ls)"
proof -
  assume r: "run_calls cs g = (ts, ls, g')"
  from run_calls_issue [OF r] have
    t: "ts = map (\<lambda>i. ''t'' @ str_nat i) [temp_count g ..< temp_count g']" and
    l: "ls = map (\<lambda>i. ''L'' @ str_nat i) [label_count g ..< label_count g']" and
    c: "temp_count g \<le> temp_count g'" "label_count g \<le> label_count g'"
    by simp_all
  have it: "inj_on (\<lambda>i. ''t'' @ str_nat i) A" and il: "inj_on (\<lambda>i. ''L'' @ str_nat i) A"
    for A by (auto simp: inj_on_def dest: str_nat_inj)
  have dt: "distinct ts"
    using it [of "{temp_count g..<temp_count g'}"] by (subst t) (simp add: distinct_map)
  have dl: "distinct ls"
    using il [of "{label_count g..<label_count g'}"] by (subst l) (simp add: distinct_map)
  have "set ts \<inter> set ls = {}" by (subst t, subst l) auto
  with dt dl t l c show ?thesis by simp
qed

theorem issued_identifiers_increasing_unique_witness:
  "run_calls [NewTemp, NewLabel, Emit (''goto'', VNone, VNone, VStr ''L0''), NewTemp, NewLabel]
      init_code_gen
     = ([''t0'', ''t1''], [''L0'', ''L1''],
        \<lparr>code = [(''goto'', VNone, VNone, VStr ''L0'')], temp_count = 2, label_count = 2\<rparr>)
   \<and> distinct ([''t0'', ''t1''] @ [''L0'', ''L1''])"
proof -
  have r: "run_calls [NewTemp, NewLabel, Emit (''goto'', VNone, VNone, VStr ''L0''), NewTemp, NewLabel]
      init_code_gen
     = ([''t0'', ''t1''], [''L0'', ''L1''],
        \<lparr>code = [(''goto'', VNone, VNone, VStr ''L0'')], temp_count = 2, label_count = 2\<rparr>)"
    by code_simp
  from issued_identifiers_increasing_unique [OF r]
  have "distinct ([''t0'', ''t1''] @ [''L0'', ''L1''])" by (elim conjE)
  with r show ?thesis by (rule conjI)
qed

subsection \<open>Nodes without a branch in the dispatch\<close>

text \<open>
  Claim C10. A node whose tag is none of the ten tags that \<^verbatim>\<open>generate_code\<close> has a
  branch for, a \<^verbatim>\<open>block\<close> or a misspelled tag among them, yields the pair
  \<^verbatim>\<open>(None, None)\<close>: no error is raised, and the analyzer (instruction log, counters,
  scope chain, function table) is returned as it was.
\<close>

theorem unhandled_node_ignored:
  "node_type n \<notin> set handled_types \<Longrightarrow> generate_code n s = (Inr (VNone, None), s)"
  by (cases n) (simp_all add: handled_types_def)

theorem unhandled_node_ignored_witness:
  "node_type (Block [Assignment ''x'' None (Literal (VInt 1))]) \<notin> set handled_types
   \<and> generate_code (Block [Assignment ''x'' None (Literal (VInt 1))]) init_analyzer
       = (Inr (VNone, None), init_analyzer)
   \<and> node_type (Other ''declaraton'') \<notin> set handled_types
   \<and> generate_code (Other ''declaraton'') init_analyzer = (Inr (VNone, None), init_analyzer)"
  using unhandled_node_ignored [of "Block [Assignment ''x'' None (Literal (VInt 1))]" init_analyzer]
        unhandled_node_ignored [of "Other ''declaraton''" init_analyzer]
  by (simp add: handled_types_def)

text \<open>
  Claim C2 asks that the statements of a block used as the then-branch of a conditional
  be analyzed, their instructions landing between the \<^verbatim>\<open>ifnot\<close> and the else-label. On
  the conditional of \<^verbatim>\<open>test_if_statement\<close> the analyzer emits the comparison, the
  \<^verbatim>\<open>ifnot\<close> and the label only: the store of \<^verbatim>\<open>x = 1\<close> inside the block is missing,
  while the same assignment given directly as the then-branch is emitted in that place.
\<close>

theorem if_block_statements_dropped:
  "fst (generate_code if_node x_analyzer) = Inr (VNone, None)
   \<and> code_gen (snd (generate_code if_node x_analyzer)) =
       \<lparr>code = [(''>'', VStr ''x'', VInt 0, VStr ''t0''),
                (''ifnot'', VStr ''t0'', VNone, VStr ''L0''),
                (''label'', VStr ''L0'', VNone, VNone)],
        temp_count = 1, label_count = 2\<rparr>
   \<and> code (code_gen (snd (generate_code
        (If_stmt (Binary_op ''>'' (Variable ''x'') (Literal (VInt 0)))
                 (Assignment ''x'' None (Literal (VInt 1))) None) x_analyzer))) =
       [(''>'', VStr ''x'', VInt 0, VStr ''t0''),
        (''ifnot'', VStr ''t0'', VNone, VStr ''L0''),
        (''='', VInt 1, VNone, VStr ''x''),
        (''label'', VStr ''L0'', VNone, VNone)]"
  by code_simp

subsection \<open>Function calls\<close>

lemma first_mismatch_exact: "first_mismatch i (map Some ps) ps = None"
  by (induction ps arbitrary: i) simp_all

lemma str_nat_0: "str_nat 0 = ''0''"
  by code_simp

text \<open>
  Claim C1, as the code has it. For a call whose callee is registered and whose argument
  types are exactly the parameter types (same number, same type at each position),
  \<^verbatim>\<open>analyze_function_call\<close> returns the declared return type. When that type is INT,
  \<^verbatim>\<open>generate_code\<close> takes a fresh temporary, emits \<^verbatim>\<open>call\<close> with the temporary as
  its result and returns the temporary with the type INT. For every other return type the
  call is handled as a void call: \<^verbatim>\<open>call\<close> is emitted without a result and the node
  yields \<^verbatim>\<open>(None, None)\<close>, so the declared type is not the type of the call expression.
\<close>

theorem function_call_result:
  assumes args: "generate_args args s = (Inr (arg_results, map Some (params info)), s1)"
      and reg: "functions s1 func_name = Some info"
  shows "analyze_function_call func_name (map Some (params info)) (functions s1)
           = Inr (return_type info)
       \<and> (return_type info = Sym INT_T \<longrightarrow>
            generate_code (Function_call func_name args) s =
              (Inr (VStr (''t'' @ str_nat (temp_count (code_gen s1))), Some (Sym INT_T)),
               s1\<lparr>code_gen := (code_gen s1)
                    \<lparr>code := code (code_gen s1) @
                       [(''call'', VStr func_name, VList arg_results,
                         VStr (''t'' @ str_nat (temp_count (code_gen s1))))],
                     temp_count := temp_count (code_gen s1) + 1\<rparr>\<rparr>))
       \<and> (return_type info \<noteq> Sym INT_T \<longrightarrow>
            generate_code (Function_call func_name args) s =
              (Inr (VNone, None),
               s1\<lparr>code_gen := (code_gen s1)
                    \<lparr>code := code (code_gen s1) @
                       [(''call'', VStr func_name, VList arg_results, VNone)]\<rparr>\<rparr>))"
proof -
  have a: "analyze_function_call func_name (map Some (params info)) (functions s1)
           = Inr (return_type info)"
    using reg by (simp add: analyze_function_call_def first_mismatch_exact)
  show ?thesis
    using args a
    by (simp add: gen_new_temp_def gen_emit_def new_temp_def emit_def)
qed

text \<open>
  The claim as stated fails for \<^verbatim>\<open>pow(2.0, 3.0)\<close>: the callee is registered with return
  type FLOAT and the arguments match, yet the call expression is reported with no type.
\<close>

theorem function_call_type_counterexample:
  "analyze_function_call ''pow'' [Some (Sym FLOAT), Some (Sym FLOAT)] (functions pow_analyzer)
     = Inr (Sym FLOAT)
   \<and> fst (generate_code call_pow pow_analyzer) = Inr (VNone, None)
   \<and> code (code_gen (snd (generate_code call_pow pow_analyzer))) =
       [(''call'', VStr ''pow'', VList [VFloat 2, VFloat 3], VNone)]"
  by (simp add: call_pow_def pow_analyzer_def init_analyzer_def init_code_gen_def
      analyze_function_call_def gen_emit_def emit_def)


theorem function_call_result_witness:
  "generate_args [Literal (VInt 5)] pow_analyzer
     = (Inr ([VInt 5], map Some (params \<lparr>return_type = Sym INT_T, params = [Sym INT_T]\<rparr>)),
        pow_analyzer)
   \<and> functions pow_analyzer ''factorial'' = Some \<lparr>return_type = Sym INT_T, params = [Sym INT_T]\<rparr>
   \<and> fst (generate_code call_factorial pow_analyzer) = Inr (VStr ''t0'', Some (Sym INT_T))
   \<and> generate_args [Literal (VFloat 2), Literal (VFloat 3)] pow_analyzer
     = (Inr ([VFloat 2, VFloat 3],
             map Some (params \<lparr>return_type = Sym FLOAT, params = [Sym FLOAT, Sym FLOAT]\<rparr>)),
        pow_analyzer)
   \<and> functions pow_analyzer ''pow''
     = Some \<lparr>return_type = Sym FLOAT, params = [Sym FLOAT, Sym FLOAT]\<rparr>
   \<and> fst (generate_code call_pow pow_analyzer) = Inr (VNone, None)"
proof -
  have a1: "generate_args [Literal (VInt 5)] pow_analyzer
     = (Inr ([VInt 5], map Some (params \<lparr>return_type = Sym INT_T, params = [Sym INT_T]\<rparr>)),
        pow_analyzer)"
    by simp
  have r1: "functions pow_analyzer ''factorial''
     = Some \<lparr>return_type = Sym INT_T, params = [Sym INT_T]\<rparr>"
    by (simp add: pow_analyzer_def)
  have a2: "generate_args [Literal (VFloat 2), Literal (VFloat 3)] pow_analyzer
     = (Inr ([VFloat 2, VFloat 3],
             map Some (params \<lparr>return_type = Sym FLOAT, params = [Sym FLOAT, Sym FLOAT]\<rparr>)),
        pow_analyzer)"
    by simp
  have r2: "functions pow_analyzer ''pow''
     = Some \<lparr>return_type = Sym FLOAT, params = [Sym FLOAT, Sym FLOAT]\<rparr>"
    by (simp add: pow_analyzer_def)
  have t0: "temp_count (code_gen pow_analyzer) = 0"
    by (simp add: pow_analyzer_def init_analyzer_def init_code_gen_def)
  from function_call_result [OF a1 r1]
  have c1: "fst (generate_code call_factorial pow_analyzer) = Inr (VStr ''t0'', Some (Sym INT_T))"
    unfolding call_factorial_def by (simp add: t0 str_nat_0 del: generate_code.simps)
  from function_call_result [OF a2 r2]
  have c2: "fst (generate_code call_pow pow_analyzer) = Inr (VNone, None)"
    unfolding call_pow_def by (simp del: generate_code.simps)
  from a1 r1 c1 a2 r2 c2 show ?thesis by blast
qed

subsection \<open>Assignments\<close>

lemma result_split: "fst p = a \<Longrightarrow> p = (a, snd p)"
  by (cases p) simp

lemma sample_temp_count: "temp_count (code_gen sample_analyzer) = 0"
  by code_simp

text \<open>
  Claim C3 says the target is resolved and checked before the right-hand side is evaluated.
  The code evaluates the right-hand side first: assigning \<^verbatim>\<open>1 + 2\<close> to the constant
  \<^verbatim>\<open>MAX\<close> fails with the addition already in the instruction log, and assigning an
  undeclared variable to \<^verbatim>\<open>MAX\<close> fails with the error of the right-hand side, not with
  the const error.
\<close>

theorem assignment_order_counterexample:
  "fst (generate_code assign_const const_analyzer)
     = Inl (ValueError (AssignmentError (CannotAssignToConstant ''MAX'')))
   \<and> code (code_gen const_analyzer) = []
   \<and> code (code_gen (snd (generate_code assign_const const_analyzer)))
     = [(''+'', VInt 1, VInt 2, VStr ''t0'')]
   \<and> fst (generate_code (Assignment ''MAX'' None (Variable ''y'')) const_analyzer)
     = Inl (ValueError (NotDeclared ''y''))"
  by code_simp

text \<open>
  Claim C3, as the code has it. A scalar assignment evaluates its right-hand side first; if
  that raises, the assignment raises the same error. Otherwise the target is resolved in
  the scope the evaluation left, and a const target, or else a target of an ArrayType,
  makes the assignment fail in the state the evaluation left: the instructions of the
  right-hand side stay in the log and neither a conversion nor a store is added.
\<close>

theorem assignment_checks_after_expression:
  "(generate_code e s = (Inl err, s1) \<longrightarrow>
      generate_code (Assignment var_name None e) s = (Inl err, s1))
   \<and> (generate_code e s = (Inr (v, t), s1)
        \<and> check_symbol var_name (current_scope s1) = Inr var_info \<and> is_const var_info \<longrightarrow>
      generate_code (Assignment var_name None e) s
        = (Inl (ValueError (AssignmentError (CannotAssignToConstant var_name))), s1))
   \<and> (generate_code e s = (Inr (v, t), s1)
        \<and> check_symbol var_name (current_scope s1) = Inr var_info \<and> \<not> is_const var_info
        \<and> is_ArrayType (sym_type var_info) \<longrightarrow>
      generate_code (Assignment var_name None e) s
        = (Inl (ValueError (AssignmentError (CannotAssignToArray var_name))), s1))"
  by (simp add: analyze_assignment_def)

theorem assignment_checks_after_expression_witness:
  "fst (generate_code (Variable ''z'') sample_analyzer) = Inl (ValueError (NotDeclared ''z''))
   \<and> fst (generate_code (Assignment ''MAX'' None (Variable ''z'')) sample_analyzer)
       = Inl (ValueError (NotDeclared ''z''))
   \<and> fst (generate_code (Binary_op ''+'' (Literal (VInt 1)) (Literal (VInt 2))) sample_analyzer)
       = Inr (VStr ''t0'', Some (Sym INT_T))
   \<and> check_symbol ''MAX''
        (current_scope (snd (generate_code
           (Binary_op ''+'' (Literal (VInt 1)) (Literal (VInt 2))) sample_analyzer)))
       = Inr \<lparr>sym_type = Sym INT_T, is_const = True\<rparr>
   \<and> generate_code assign_const sample_analyzer
       = (Inl (ValueError (AssignmentError (CannotAssignToConstant ''MAX''))),
          snd (generate_code (Binary_op ''+'' (Literal (VInt 1)) (Literal (VInt 2)))
                 sample_analyzer))
   \<and> check_symbol ''arr''
        (current_scope (snd (generate_code
           (Binary_op ''+'' (Literal (VInt 1)) (Literal (VInt 2))) sample_analyzer)))
       = Inr \<lparr>sym_type = ArrayType INT_T 5, is_const = False\<rparr>
   \<and> generate_code
         (Assignment ''arr'' None (Binary_op ''+'' (Literal (VInt 1)) (Literal (VInt 2))))
         sample_analyzer
       = (Inl (ValueError (AssignmentError (CannotAssignToArray ''arr''))),
          snd (generate_code (Binary_op ''+'' (Literal (VInt 1)) (Literal (VInt 2)))
                 sample_analyzer))"
proof -
  let ?rhs = "Binary_op ''+'' (Literal (VInt 1)) (Literal (VInt 2))"
  let ?s1 = "snd (generate_code ?rhs sample_analyzer)"
  have f0: "fst (generate_code (Variable ''z'') sample_analyzer)
              = Inl (ValueError (NotDeclared ''z''))"
    by code_simp
  have f1: "fst (generate_code ?rhs sample_analyzer) = Inr (VStr ''t0'', Some (Sym INT_T))"
    by code_simp
  have r1: "check_symbol ''MAX'' (current_scope ?s1)
              = Inr \<lparr>sym_type = Sym INT_T, is_const = True\<rparr>"
    by code_simp
  have r2: "check_symbol ''arr'' (current_scope ?s1)
              = Inr \<lparr>sym_type = ArrayType INT_T 5, is_const = False\<rparr>"
    by code_simp
  note e0 = result_split [OF f0] and e1 = result_split [OF f1]
  have ic: "is_const \<lparr>sym_type = Sym INT_T, is_const = True\<rparr>" by simp
  have nc: "\<not> is_const \<lparr>sym_type = ArrayType INT_T 5, is_const = False\<rparr>" by simp
  have ia: "is_ArrayType (sym_type \<lparr>sym_type = ArrayType INT_T 5, is_const = False\<rparr>)" by simp
  have "generate_code (Assignment ''MAX'' None (Variable ''z'')) sample_analyzer
          = (Inl (ValueError (NotDeclared ''z'')),
             snd (generate_code (Variable ''z'') sample_analyzer))"
    by (rule assignment_checks_after_expression [THEN conjunct1, THEN mp, OF e0])
  then have c0: "fst (generate_code (Assignment ''MAX'' None (Variable ''z'')) sample_analyzer)
              = Inl (ValueError (NotDeclared ''z''))"
    by (simp only: fst_conv)
  have c1: "generate_code assign_const sample_analyzer
       = (Inl (ValueError (AssignmentError (CannotAssignToConstant ''MAX''))), ?s1)"
    unfolding assign_const_def
    by (rule assignment_checks_after_expression
          [THEN conjunct2, THEN conjunct1, THEN mp, OF conjI [OF e1 conjI [OF r1 ic]]])
  have c2: "generate_code (Assignment ''arr'' None ?rhs) sample_analyzer
       = (Inl (ValueError (AssignmentError (CannotAssignToArray ''arr''))), ?s1)"
    by (rule assignment_checks_after_expression
          [THEN conjunct2, THEN conjunct2, THEN mp,
           OF conjI [OF e1 conjI [OF r2 conjI [OF nc ia]]]])
  from f0 c0 f1 r1 c1 r2 c2 show ?thesis by blast
qed


text \<open>
  Claim C4. Let the right-hand side of a scalar assignment evaluate to a value of type
  \<open>expr_type\<close> and the target resolve to a binding that is neither const nor of an
  ArrayType. If the target is FLOAT and the expression INT, exactly two instructions are
  added: \<^verbatim>\<open>inttofloat\<close> of the value into the next temporary, then the store of that
  temporary into the target. If the two types are the same, exactly the store of the value
  is added. Every other pair of types, FLOAT into INT among them, fails with the type
  mismatch ValueError (the spec's TypeError) and adds nothing.
\<close>

theorem scalar_assignment_typing:
  assumes e: "generate_code e s = (Inr (v, expr_type), s1)"
      and r: "check_symbol var_name (current_scope s1) = Inr var_info"
      and c: "\<not> is_const var_info" and a: "\<not> is_ArrayType (sym_type var_info)"
  shows "(sym_type var_info = Sym FLOAT \<and> expr_type = Some (Sym INT_T) \<longrightarrow>
           generate_code (Assignment var_name None e) s =
             (Inr (VNone, None),
              s1\<lparr>code_gen := (code_gen s1)
                   \<lparr>code := code (code_gen s1) @
                      [(''inttofloat'', v, VNone, VStr (''t'' @ str_nat (temp_count (code_gen s1)))),
                       (''='', VStr (''t'' @ str_nat (temp_count (code_gen s1))), VNone,
                        VStr var_name)],
                    temp_count := temp_count (code_gen s1) + 1\<rparr>\<rparr>))
       \<and> (expr_type = Some (sym_type var_info) \<longrightarrow>
           generate_code (Assignment var_name None e) s =
             (Inr (VNone, None),
              s1\<lparr>code_gen := (code_gen s1)
                   \<lparr>code := code (code_gen s1) @ [(''='', v, VNone, VStr var_name)]\<rparr>\<rparr>))
       \<and> (expr_type \<noteq> Some (sym_type var_info)
            \<and> \<not> (sym_type var_info = Sym FLOAT \<and> expr_type = Some (Sym INT_T)) \<longrightarrow>
           generate_code (Assignment var_name None e) s =
             (Inl (ValueError (AssignmentError (AssignmentTypeMismatch var_name))), s1))"
  using e r c a
  by (auto simp: analyze_assignment_def gen_new_temp_def gen_emit_def new_temp_def emit_def)

theorem scalar_assignment_typing_witness:
  "generate_code (Literal (VInt 1)) sample_analyzer
     = (Inr (VInt 1, Some (Sym INT_T)), sample_analyzer)
   \<and> check_symbol ''y'' (current_scope sample_analyzer)
     = Inr \<lparr>sym_type = Sym FLOAT, is_const = False\<rparr>
   \<and> fst (generate_code (Assignment ''y'' None (Literal (VInt 1))) sample_analyzer)
     = Inr (VNone, None)
   \<and> code (code_gen (snd (generate_code (Assignment ''y'' None (Literal (VInt 1)))
                             sample_analyzer)))
     = code (code_gen sample_analyzer) @
         [(''inttofloat'', VInt 1, VNone, VStr ''t0''), (''='', VStr ''t0'', VNone, VStr ''y'')]
   \<and> check_symbol ''x'' (current_scope sample_analyzer)
     = Inr \<lparr>sym_type = Sym INT_T, is_const = False\<rparr>
   \<and> fst (generate_code (Assignment ''x'' None (Literal (VInt 1))) sample_analyzer)
     = Inr (VNone, None)
   \<and> code (code_gen (snd (generate_code (Assignment ''x'' None (Literal (VInt 1)))
                             sample_analyzer)))
     = code (code_gen sample_analyzer) @ [(''='', VInt 1, VNone, VStr ''x'')]
   \<and> generate_code (Literal (VFloat (5 / 2))) sample_analyzer
     = (Inr (VFloat (5 / 2), Some (Sym FLOAT)), sample_analyzer)
   \<and> generate_code (Assignment ''x'' None (Literal (VFloat (5 / 2)))) sample_analyzer
     = (Inl (ValueError (AssignmentError (AssignmentTypeMismatch ''x''))), sample_analyzer)"
proof -
  have e1: "generate_code (Literal (VInt 1)) sample_analyzer
     = (Inr (VInt 1, Some (Sym INT_T)), sample_analyzer)"
    by simp
  have e2: "generate_code (Literal (VFloat (5 / 2))) sample_analyzer
     = (Inr (VFloat (5 / 2), Some (Sym FLOAT)), sample_analyzer)"
    by simp
  have ry: "check_symbol ''y'' (current_scope sample_analyzer)
     = Inr \<lparr>sym_type = Sym FLOAT, is_const = False\<rparr>"
    by code_simp
  have rx: "check_symbol ''x'' (current_scope sample_analyzer)
     = Inr \<lparr>sym_type = Sym INT_T, is_const = False\<rparr>"
    by code_simp
  have cy: "\<not> is_const \<lparr>sym_type = Sym FLOAT, is_const = False\<rparr>"
    and ay: "\<not> is_ArrayType (sym_type \<lparr>sym_type = Sym FLOAT, is_const = False\<rparr>)"
    and cx: "\<not> is_const \<lparr>sym_type = Sym INT_T, is_const = False\<rparr>"
    and ax: "\<not> is_ArrayType (sym_type \<lparr>sym_type = Sym INT_T, is_const = False\<rparr>)"
    by simp_all
  have "generate_code (Assignment ''y'' None (Literal (VInt 1))) sample_analyzer =
          (Inr (VNone, None),
           sample_analyzer\<lparr>code_gen := (code_gen sample_analyzer)
             \<lparr>code := code (code_gen sample_analyzer) @
                [(''inttofloat'', VInt 1, VNone,
                  VStr (''t'' @ str_nat (temp_count (code_gen sample_analyzer)))),
                 (''='', VStr (''t'' @ str_nat (temp_count (code_gen sample_analyzer))), VNone,
                  VStr ''y'')],
              temp_count := temp_count (code_gen sample_analyzer) + 1\<rparr>\<rparr>)"
    by (rule scalar_assignment_typing [OF e1 ry cy ay, THEN conjunct1, THEN mp]) simp
  then have c1:
    "fst (generate_code (Assignment ''y'' None (Literal (VInt 1))) sample_analyzer)
       = Inr (VNone, None)"
    "code (code_gen (snd (generate_code (Assignment ''y'' None (Literal (VInt 1)))
                             sample_analyzer)))
     = code (code_gen sample_analyzer) @
         [(''inttofloat'', VInt 1, VNone, VStr ''t0''), (''='', VStr ''t0'', VNone, VStr ''y'')]"
    by (simp_all add: sample_temp_count str_nat_0 del: generate_code.simps)
  have "generate_code (Assignment ''x'' None (Literal (VInt 1))) sample_analyzer =
          (Inr (VNone, None),
           sample_analyzer\<lparr>code_gen := (code_gen sample_analyzer)
             \<lparr>code := code (code_gen sample_analyzer) @
                [(''='', VInt 1, VNone, VStr ''x'')]\<rparr>\<rparr>)"
    by (rule scalar_assignment_typing [OF e1 rx cx ax, THEN conjunct2, THEN conjunct1, THEN mp])
       simp
  then have c2:
    "fst (generate_code (Assignment ''x'' None (Literal (VInt 1))) sample_analyzer)
       = Inr (VNone, None)"
    "code (code_gen (snd (generate_code (Assignment ''x'' None (Literal (VInt 1)))
                             sample_analyzer)))
     = code (code_gen sample_analyzer) @ [(''='', VInt 1, VNone, VStr ''x'')]"
    by (simp_all del: generate_code.simps)
  have c3: "generate_code (Assignment ''x'' None (Literal (VFloat (5 / 2)))) sample_analyzer
     = (Inl (ValueError (AssignmentError (AssignmentTypeMismatch ''x''))), sample_analyzer)"
    by (rule scalar_assignment_typing [OF e2 rx cx ax, THEN conjunct2, THEN conjunct2, THEN mp])
       simp
  from e1 ry c1 rx c2 e2 c3 show ?thesis by blast
qed


text \<open>
  Claim C5. In an array-element assignment whose index expression evaluates without error:
  an index type other than INT makes the assignment fail; with an INT index, a target that
  resolves to an array and a right-hand side that evaluates, the assignment succeeds
  exactly when the type of the right-hand side equals the base type of the array, adding
  the one instruction \<^verbatim>\<open>arraystore\<close> with the name, the index reference and the value
  reference, and otherwise fails with the element type mismatch ValueError (the spec's
  TypeError): an INT value is not promoted for a FLOAT array. Conversely a successful
  assignment had an INT index, an array target and a right-hand side of the base type.
\<close>

theorem array_element_assignment:
  assumes i: "generate_code idx s = (Inr (index_result, index_type), s1)"
  shows "(index_type \<noteq> Some (Sym INT_T) \<longrightarrow>
           (\<exists>err. generate_code (Assignment var_name (Some idx) e) s = (Inl err, s1)))
       \<and> (index_type = Some (Sym INT_T)
            \<and> check_symbol var_name (current_scope s1) = Inr var_info
            \<and> sym_type var_info = ArrayType base_type n
            \<and> generate_code e s1 = (Inr (expr_result, expr_type), s2) \<longrightarrow>
           generate_code (Assignment var_name (Some idx) e) s =
             (if expr_type = Some (Sym base_type)
              then (Inr (VNone, None),
                    s2\<lparr>code_gen := (code_gen s2)
                         \<lparr>code := code (code_gen s2) @
                            [(''arraystore'', VStr var_name, index_result, expr_result)],
                          temp_count := temp_count (code_gen s2) + 1\<rparr>\<rparr>)
              else (Inl (ValueError (ArrayElementTypeMismatch var_name)), s2)))
       \<and> (\<forall>r s'. generate_code (Assignment var_name (Some idx) e) s = (Inr r, s') \<longrightarrow>
            index_type = Some (Sym INT_T)
            \<and> (\<exists>var_info base_type n expr_result s2.
                  check_symbol var_name (current_scope s1) = Inr var_info
                  \<and> sym_type var_info = ArrayType base_type n
                  \<and> generate_code e s1 = (Inr (expr_result, Some (Sym base_type)), s2)
                  \<and> code (code_gen s') = code (code_gen s2) @
                       [(''arraystore'', VStr var_name, index_result, expr_result)]))"
proof -
  have a: "index_type \<noteq> Some (Sym INT_T) \<longrightarrow>
           (\<exists>err. generate_code (Assignment var_name (Some idx) e) s = (Inl err, s1))"
    using i by (auto simp: analyze_array_access_def split: sum.splits SymbolInfo.splits)
  have b: "index_type = Some (Sym INT_T)
            \<and> check_symbol var_name (current_scope s1) = Inr var_info
            \<and> sym_type var_info = ArrayType base_type n
            \<and> generate_code e s1 = (Inr (expr_result, expr_type), s2) \<longrightarrow>
           generate_code (Assignment var_name (Some idx) e) s =
             (if expr_type = Some (Sym base_type)
              then (Inr (VNone, None),
                    s2\<lparr>code_gen := (code_gen s2)
                         \<lparr>code := code (code_gen s2) @
                            [(''arraystore'', VStr var_name, index_result, expr_result)],
                          temp_count := temp_count (code_gen s2) + 1\<rparr>\<rparr>)
              else (Inl (ValueError (ArrayElementTypeMismatch var_name)), s2))"
    using i
    by (auto simp: analyze_array_access_def gen_new_temp_def gen_emit_def new_temp_def emit_def)
  have c: "\<forall>r s'. generate_code (Assignment var_name (Some idx) e) s = (Inr r, s') \<longrightarrow>
            index_type = Some (Sym INT_T)
            \<and> (\<exists>var_info base_type n expr_result s2.
                  check_symbol var_name (current_scope s1) = Inr var_info
                  \<and> sym_type var_info = ArrayType base_type n
                  \<and> generate_code e s1 = (Inr (expr_result, Some (Sym base_type)), s2)
                  \<and> code (code_gen s') = code (code_gen s2) @
                       [(''arraystore'', VStr var_name, index_result, expr_result)])"
    using i
    by (auto simp: analyze_array_access_def gen_new_temp_def gen_emit_def new_temp_def emit_def
        split: sum.splits SymbolInfo.splits prod.splits if_splits)
  from a b c show ?thesis by blast
qed


theorem array_element_assignment_witness:
  "generate_code (Literal (VInt 2)) sample_analyzer
     = (Inr (VInt 2, Some (Sym INT_T)), sample_analyzer)
   \<and> check_symbol ''arr'' (current_scope sample_analyzer)
     = Inr \<lparr>sym_type = ArrayType INT_T 5, is_const = False\<rparr>
   \<and> generate_code (Literal (VInt 10)) sample_analyzer
     = (Inr (VInt 10, Some (Sym INT_T)), sample_analyzer)
   \<and> fst (generate_code (Assignment ''arr'' (Some (Literal (VInt 2))) (Literal (VInt 10)))
            sample_analyzer) = Inr (VNone, None)
   \<and> code (code_gen (snd (generate_code
        (Assignment ''arr'' (Some (Literal (VInt 2))) (Literal (VInt 10))) sample_analyzer)))
     = code (code_gen sample_analyzer) @ [(''arraystore'', VStr ''arr'', VInt 2, VInt 10)]
   \<and> check_symbol ''farr'' (current_scope sample_analyzer)
     = Inr \<lparr>sym_type = ArrayType FLOAT 5, is_const = False\<rparr>
   \<and> generate_code (Assignment ''farr'' (Some (Literal (VInt 2))) (Literal (VInt 10)))
        sample_analyzer
     = (Inl (ValueError (ArrayElementTypeMismatch ''farr'')), sample_analyzer)
   \<and> generate_code (Literal (VBool True)) sample_analyzer
     = (Inr (VBool True, Some (Sym BOOL)), sample_analyzer)
   \<and> (\<exists>err. generate_code (Assignment ''arr'' (Some (Literal (VBool True))) (Literal (VInt 10)))
               sample_analyzer = (Inl err, sample_analyzer))"
proof -
  let ?ok = "Assignment ''arr'' (Some (Literal (VInt 2))) (Literal (VInt 10))"
  have i2: "generate_code (Literal (VInt 2)) sample_analyzer
     = (Inr (VInt 2, Some (Sym INT_T)), sample_analyzer)"
    by simp
  have e10: "generate_code (Literal (VInt 10)) sample_analyzer
     = (Inr (VInt 10, Some (Sym INT_T)), sample_analyzer)"
    by simp
  have ib: "generate_code (Literal (VBool True)) sample_analyzer
     = (Inr (VBool True, Some (Sym BOOL)), sample_analyzer)"
    by simp
  have ra: "check_symbol ''arr'' (current_scope sample_analyzer)
     = Inr \<lparr>sym_type = ArrayType INT_T 5, is_const = False\<rparr>"
    by code_simp
  have rf: "check_symbol ''farr'' (current_scope sample_analyzer)
     = Inr \<lparr>sym_type = ArrayType FLOAT 5, is_const = False\<rparr>"
    by code_simp
  have ta: "sym_type \<lparr>sym_type = ArrayType INT_T 5, is_const = False\<rparr> = ArrayType INT_T 5"
    and tf: "sym_type \<lparr>sym_type = ArrayType FLOAT 5, is_const = False\<rparr> = ArrayType FLOAT 5"
    by simp_all
  have ok: "generate_code ?ok sample_analyzer =
      (if Some (Sym INT_T) = Some (Sym INT_T)
       then (Inr (VNone, None),
             sample_analyzer\<lparr>code_gen := (code_gen sample_analyzer)
               \<lparr>code := code (code_gen sample_analyzer) @
                  [(''arraystore'', VStr ''arr'', VInt 2, VInt 10)],
                temp_count := temp_count (code_gen sample_analyzer) + 1\<rparr>\<rparr>)
       else (Inl (ValueError (ArrayElementTypeMismatch ''arr'')), sample_analyzer))"
    by (rule array_element_assignment [OF i2, THEN conjunct2, THEN conjunct1, THEN mp,
          OF conjI [OF refl conjI [OF ra conjI [OF ta e10]]]])
  then have c1:
    "fst (generate_code ?ok sample_analyzer) = Inr (VNone, None)"
    "code (code_gen (snd (generate_code ?ok sample_analyzer)))
       = code (code_gen sample_analyzer) @ [(''arraystore'', VStr ''arr'', VInt 2, VInt 10)]"
    by (simp_all del: generate_code.simps)
  have "generate_code (Assignment ''farr'' (Some (Literal (VInt 2))) (Literal (VInt 10)))
          sample_analyzer =
      (if Some (Sym INT_T) = Some (Sym FLOAT)
       then (Inr (VNone, None),
             sample_analyzer\<lparr>code_gen := (code_gen sample_analyzer)
               \<lparr>code := code (code_gen sample_analyzer) @
                  [(''arraystore'', VStr ''farr'', VInt 2, VInt 10)],
                temp_count := temp_count (code_gen sample_analyzer) + 1\<rparr>\<rparr>)
       else (Inl (ValueError (ArrayElementTypeMismatch ''farr'')), sample_analyzer))"
    by (rule array_element_assignment [OF i2, THEN conjunct2, THEN conjunct1, THEN mp,
          OF conjI [OF refl conjI [OF rf conjI [OF tf e10]]]])
  then have c2:
    "generate_code (Assignment ''farr'' (Some (Literal (VInt 2))) (Literal (VInt 10)))
        sample_analyzer
     = (Inl (ValueError (ArrayElementTypeMismatch ''farr'')), sample_analyzer)"
    by (simp del: generate_code.simps)
  have c3: "\<exists>err. generate_code
              (Assignment ''arr'' (Some (Literal (VBool True))) (Literal (VInt 10)))
              sample_analyzer = (Inl err, sample_analyzer)"
    by (rule array_element_assignment [OF ib, THEN conjunct1, THEN mp]) simp
  from i2 ra e10 c1 rf c2 ib c3 show ?thesis by blast
qed

subsection \<open>The instruction log only grows\<close>

lemma log_extends_refl: "log_extends s s"
  by (simp add: log_extends_def)

lemma log_extends_trans: "log_extends s s1 \<Longrightarrow> log_extends s1 s2 \<Longrightarrow> log_extends s s2"
  by (auto simp: log_extends_def)

lemma log_extends_decl:
  "analyze_declaration t n c a s = Inr s1 \<Longrightarrow> code (code_gen s1) = code (code_gen s)"
  by (auto simp: analyze_declaration_def split: sum.splits option.splits if_splits)

lemmas gen_defs = gen_emit_def emit_def gen_new_temp_def new_temp_def gen_new_label_def
  new_label_def

lemma generate_args_log_extends:
  assumes "\<And>n s r s1. n \<in> set ns \<Longrightarrow> generate_code n s = (r, s1) \<Longrightarrow> log_extends s s1"
  shows "generate_args ns s = (r, s1) \<Longrightarrow> log_extends s s1"
  using assms
proof (induction ns arbitrary: s r s1)
  case Nil
  then show ?case by (simp add: log_extends_refl)
next
  case (Cons a ns)
  obtain ra sa where a: "generate_code a s = (ra, sa)" by (cases "generate_code a s")
  from Cons.prems(2) [of a s ra sa] a have 1: "log_extends s sa" by simp
  show ?case
  proof (cases ra)
    case (Inl e)
    with a Cons.prems(1) 1 show ?thesis by simp
  next
    case (Inr p)
    obtain rb sb where b: "generate_args ns sa = (rb, sb)" by (cases "generate_args ns sa")
    have 2: "log_extends sa sb"
    proof (rule Cons.IH [OF b])
      fix n s r s1 assume "n \<in> set ns" "generate_code n s = (r, s1)"
      then show "log_extends s s1" using Cons.prems(2) [of n s r s1] by simp
    qed
    from a b Inr Cons.prems(1) have "s1 = sb"
      by (auto split: sum.splits prod.splits)
    with 1 2 show ?thesis by (auto intro: log_extends_trans)
  qed
qed

lemma generate_code_log_extends:
  "generate_code n s = (r, s1) \<Longrightarrow> log_extends s s1"
proof (induction n arbitrary: s r s1)
  case (Declaration data_type var_name c array_size)
  then show ?case
    by (auto simp: log_extends_def gen_defs split: sum.splits option.splits
        dest!: log_extends_decl)
next
  case (Assignment var_name idx e)
  note ih2 = Assignment.IH(2) [unfolded log_extends_def]
  show ?case
  proof (cases idx)
    case None
    with Assignment.prems show ?thesis
      by (auto simp: log_extends_def gen_defs split: sum.splits prod.splits if_splits
          dest!: ih2)
  next
    case (Some i)
    have ih1: "\<And>s r s1. generate_code i s = (r, s1)
                 \<Longrightarrow> \<exists>xs. code (code_gen s1) = code (code_gen s) @ xs"
      using Assignment.IH(1) Some by (simp add: log_extends_def)
    from Some Assignment.prems show ?thesis
      by (auto simp: log_extends_def gen_defs split: sum.splits prod.splits if_splits
          dest!: ih1 ih2)
  qed
next
  case (Binary_op opr n1 n2)
  note ih = Binary_op.IH [unfolded log_extends_def]
  from Binary_op.prems show ?case
    by (auto simp: log_extends_def gen_defs split: sum.splits prod.splits if_splits
        dest!: ih)
next
  case (Unary_op opr n)
  note ih = Unary_op.IH [unfolded log_extends_def]
  from Unary_op.prems show ?case
    by (auto simp: log_extends_def gen_defs split: sum.splits prod.splits if_splits
        dest!: ih)
next
  case (Array_access x1 n)
  note ih = Array_access.IH [unfolded log_extends_def]
  from Array_access.prems show ?case
    by (auto simp: log_extends_def gen_defs split: sum.splits prod.splits if_splits
        dest!: ih)
next
  case (If_stmt n1 n2 x3)
  note ih = If_stmt.IH(1,2) [unfolded log_extends_def]
  show ?case
  proof (cases x3)
    case None
    with If_stmt.prems show ?thesis
      by (auto simp: log_extends_def gen_defs split: sum.splits prod.splits if_splits
          dest!: ih)
  next
    case (Some eb)
    have ih3: "\<And>s r s1. generate_code eb s = (r, s1)
                 \<Longrightarrow> \<exists>xs. code (code_gen s1) = code (code_gen s) @ xs"
      using If_stmt.IH(3) Some by (simp add: log_extends_def)
    from Some If_stmt.prems show ?thesis
      by (auto simp: log_extends_def gen_defs split: sum.splits prod.splits if_splits
          dest!: ih ih3)
  qed
next
  case (While_stmt n1 n2)
  note ih = While_stmt.IH [unfolded log_extends_def]
  from While_stmt.prems show ?case
    by (auto simp: log_extends_def gen_defs split: sum.splits prod.splits if_splits
        dest!: ih)
next
  case (Function_call func_name args)
  have a: "\<And>r s1 s. generate_args args s = (r, s1)
             \<Longrightarrow> \<exists>xs. code (code_gen s1) = code (code_gen s) @ xs"
    using generate_args_log_extends [OF Function_call.IH] by (simp add: log_extends_def)
  from Function_call.prems show ?case
    by (auto simp: log_extends_def gen_defs split: sum.splits prod.splits if_splits
        dest!: a)
next
  case (Variable x)
  then show ?case by (auto simp: log_extends_def split: sum.splits)
next
  case (Literal x)
  then show ?case by (auto simp: log_extends_def split: sum.splits)
next
  case (Block x)
  then show ?case by (auto simp: log_extends_def)
next
  case (Other x)
  then show ?case by (auto simp: log_extends_def gen_defs split: if_splits prod.splits)
qed


lemma emitted_append:
  "code (code_gen (snd (generate_code n s))) = code (code_gen s) @ emitted n s"
proof -
  obtain r s1 where g: "generate_code n s = (r, s1)" by (cases "generate_code n s")
  from generate_code_log_extends [OF g] obtain xs
    where "code (code_gen s1) = code (code_gen s) @ xs"
    by (auto simp: log_extends_def)
  with g show ?thesis by (simp add: emitted_def)
qed

subsection \<open>Loops\<close>

text \<open>
  Claim C6. Let a \<^verbatim>\<open>while\<close> node be analyzed in \<open>s\<close>; the start label is \<open>L\<close> with the
  current value of the label counter, the end label \<open>L\<close> with the next value. If the
  condition, analyzed after the start label was emitted, succeeds with type BOOL, and the
  body, analyzed after the \<^verbatim>\<open>ifnot\<close>, succeeds, then the loop succeeds and what it adds to
  the log is, in this order: \<^verbatim>\<open>label start\<close>, the instructions of the condition,
  \<^verbatim>\<open>ifnot cond, _, end\<close>, the instructions of the body, \<^verbatim>\<open>goto start\<close>,
  \<^verbatim>\<open>label end\<close>. The loop itself contributes these two labels, one \<^verbatim>\<open>ifnot\<close> and one
  \<^verbatim>\<open>goto\<close>, four instructions whatever the body is.
\<close>

theorem while_loop_instructions:
  assumes sl: "start_label = ''L'' @ str_nat (label_count (code_gen s))"
      and el: "end_label = ''L'' @ str_nat (label_count (code_gen s) + 1)"
      and s3: "s3 = s\<lparr>code_gen := (code_gen s)
                 \<lparr>code := code (code_gen s) @ [(''label'', VStr start_label, VNone, VNone)],
                  label_count := label_count (code_gen s) + 2\<rparr>\<rparr>"
      and c: "generate_code condition s3 = (Inr (cond_result, Some (Sym BOOL)), s4)"
      and s5: "s5 = gen_emit ''ifnot'' cond_result VNone (VStr end_label) s4"
      and b: "generate_code body s5 = (Inr r, s6)"
  shows "fst (generate_code (While_stmt condition body) s) = Inr (VNone, None)
       \<and> code (code_gen (snd (generate_code (While_stmt condition body) s))) =
           code (code_gen s)
           @ [(''label'', VStr start_label, VNone, VNone)]
           @ emitted condition s3
           @ [(''ifnot'', cond_result, VNone, VStr end_label)]
           @ emitted body s5
           @ [(''goto'', VNone, VNone, VStr start_label),
              (''label'', VStr end_label, VNone, VNone)]
       \<and> length (emitted (While_stmt condition body) s)
           = length (emitted condition s3) + length (emitted body s5) + 4"
proof -
  have fl: "fst (gen_new_label s) = start_label"
    by (simp add: gen_new_label_def new_label_def sl)
  have fl2: "fst (gen_new_label (snd (gen_new_label s))) = end_label"
    by (simp add: gen_new_label_def new_label_def el)
  have e3: "gen_emit ''label'' (VStr start_label) VNone VNone
              (snd (gen_new_label (snd (gen_new_label s)))) = s3"
    by (simp add: s3 gen_new_label_def new_label_def gen_emit_def emit_def)
  have w: "generate_code (While_stmt condition body) s =
      (Inr (VNone, None),
       gen_emit ''label'' (VStr end_label) VNone VNone
         (gen_emit ''goto'' VNone VNone (VStr start_label) s6))"
    by (simp add: case_prod_unfold Let_def fl fl2 e3 c s5 [symmetric] b)
  have c3: "code (code_gen s3) = code (code_gen s) @ [(''label'', VStr start_label, VNone, VNone)]"
    by (simp add: s3)
  from emitted_append [of condition s3] c
  have c4: "code (code_gen s4) = code (code_gen s3) @ emitted condition s3" by simp
  have c5: "code (code_gen s5)
              = code (code_gen s4) @ [(''ifnot'', cond_result, VNone, VStr end_label)]"
    by (simp add: s5 gen_emit_def emit_def)
  from emitted_append [of body s5] b
  have c6: "code (code_gen s6) = code (code_gen s5) @ emitted body s5" by simp
  have code: "code (code_gen (snd (generate_code (While_stmt condition body) s))) =
           code (code_gen s)
           @ [(''label'', VStr start_label, VNone, VNone)]
           @ emitted condition s3
           @ [(''ifnot'', cond_result, VNone, VStr end_label)]
           @ emitted body s5
           @ [(''goto'', VNone, VNone, VStr start_label),
              (''label'', VStr end_label, VNone, VNone)]"
    unfolding w by (simp add: gen_emit_def emit_def c6 c5 c4 c3)
  have "emitted (While_stmt condition body) s =
           [(''label'', VStr start_label, VNone, VNone)]
           @ emitted condition s3
           @ [(''ifnot'', cond_result, VNone, VStr end_label)]
           @ emitted body s5
           @ [(''goto'', VNone, VNone, VStr start_label),
              (''label'', VStr end_label, VNone, VNone)]"
    unfolding emitted_def [of "While_stmt condition body"] code by simp
  then have len: "length (emitted (While_stmt condition body) s)
           = length (emitted condition s3) + length (emitted body s5) + 4"
    by simp
  from w code len show ?thesis by (simp del: generate_code.simps)
qed


theorem while_loop_instructions_witness:
  "fst (generate_code while_cond while_entry) = Inr (VStr ''t0'', Some (Sym BOOL))
   \<and> fst (generate_code (While_stmt while_cond (Block [])) init_analyzer) = Inr (VNone, None)
   \<and> code (code_gen (snd (generate_code (While_stmt while_cond (Block [])) init_analyzer))) =
       [(''label'', VStr ''L0'', VNone, VNone),
        (''<'', VInt 1, VInt 2, VStr ''t0''),
        (''ifnot'', VStr ''t0'', VNone, VStr ''L1''),
        (''goto'', VNone, VNone, VStr ''L0''),
        (''label'', VStr ''L1'', VNone, VNone)]"
proof -
  let ?s4 = "snd (generate_code while_cond while_entry)"
  let ?s5 = "gen_emit ''ifnot'' (VStr ''t0'') VNone (VStr ''L1'') ?s4"
  have sl: "''L0'' = ''L'' @ str_nat (label_count (code_gen init_analyzer))"
    by code_simp
  have el: "''L1'' = ''L'' @ str_nat (label_count (code_gen init_analyzer) + 1)"
    by code_simp
  have f: "fst (generate_code while_cond while_entry) = Inr (VStr ''t0'', Some (Sym BOOL))"
    by code_simp
  have b: "generate_code (Block []) ?s5 = (Inr (VNone, None), ?s5)"
    by simp
  have ec: "emitted while_cond while_entry = [(''<'', VInt 1, VInt 2, VStr ''t0'')]"
    by code_simp
  have eb: "emitted (Block []) ?s5 = []"
    by (simp add: emitted_def)
  have c0: "code (code_gen init_analyzer) = []"
    by code_simp
  from while_loop_instructions
         [OF sl el while_entry_def result_split [OF f] refl b]
  have "fst (generate_code (While_stmt while_cond (Block [])) init_analyzer) = Inr (VNone, None)"
    "code (code_gen (snd (generate_code (While_stmt while_cond (Block [])) init_analyzer))) =
       [(''label'', VStr ''L0'', VNone, VNone),
        (''<'', VInt 1, VInt 2, VStr ''t0''),
        (''ifnot'', VStr ''t0'', VNone, VStr ''L1''),
        (''goto'', VNone, VNone, VStr ''L0''),
        (''label'', VStr ''L1'', VNone, VNone)]"
    by (simp_all add: ec eb c0 del: generate_code.simps)
  with f show ?thesis by blast
qed

end
